theory Spec2Isabelle
  imports Complex_Main "HOL-Library.AList" "HOL-Library.List_Lexorder" "HOL-Library.Char_ord"
    "HOL-Library.Product_Lexorder"
begin

section \<open>Inventory epochs (lib/inventory.py)\<close>

text \<open>
  An inventory item (network, station, sensor location or stream) carries an epoch.
  The accessors \<^verbatim>\<open>obj.start()\<close> and \<^verbatim>\<open>obj.end()\<close> raise when the attribute is
  not set; an unset attribute is \<open>None\<close> here. Times are points of a linear order.
\<close>

record 't inventory_item =
  item_start :: "'t option"
  item_end :: "'t option"

text \<open>
  \<^verbatim>\<open>operational(obj, time)\<close>: the first \<^verbatim>\<open>try\<close> block returns False when the
  start cannot be read or the assertion \<^verbatim>\<open>time >= start\<close> fails; the second returns
  False when the end can be read and \<^verbatim>\<open>time > end\<close>; an unreadable end is passed over.
\<close>

definition operational :: "('t::linorder) inventory_item \<Rightarrow> 't \<Rightarrow> bool" where
  "operational obj time =
     (case item_start obj of
        None \<Rightarrow> False
      | Some start \<Rightarrow>
          if \<not> (time \<ge> start) then False
          else (case item_end obj of
                  None \<Rightarrow> True
                | Some end' \<Rightarrow> if time > end' then False else True))"

section \<open>Online relocator (bin/scdlpicker.online-relocator.py): data\<close>

text \<open>
  Python floats (weights, depths, coordinates, residuals, times in seconds) are modelled
  as reals. An accessor that raises \<^verbatim>\<open>ValueError\<close> on an unset attribute is an
  \<open>option\<close> field.
\<close>

record arrival =
  arr_pickID :: string
  arr_weight :: "real option"

record creationInfo =
  ci_author :: string
  ci_agencyID :: string
  ci_creationTime :: real

datatype evaluationMode = MANUAL | AUTOMATIC

record origin =
  org_publicID :: string
  org_time :: real
  org_latitude :: real
  org_longitude :: real
  org_depth :: real
  org_arrivals :: "arrival list"
  org_standardError :: "real option"
  org_creationInfo :: "creationInfo option"
  org_evaluationMode :: "evaluationMode option"

record event =
  evt_publicID :: string
  evt_preferredOriginID :: string

text \<open>
  The collaborators of the relocator, as parameters: the helpers of
  \<^verbatim>\<open>scdlpicker.util\<close>, \<^verbatim>\<open>scdlpicker.dbutil\<close>, \<^verbatim>\<open>scdlpicker.relocation\<close> and
  \<^verbatim>\<open>scdlpicker.depth\<close> that the application calls, and the registry lookup
  \<^verbatim>\<open>seiscomp.datamodel.Pick.Find\<close>. A failed load is \<open>None\<close>, a failed relocation is
  \<open>None\<close>, and \<open>computeDepth\<close> is \<open>None\<close> both when it returns None and when it raises
  (the caller catches every exception and sets None).
\<close>

record 'p collaborators =
  util_hasFixedDepth :: "origin \<Rightarrow> bool"
  util_agencyID :: "origin \<Rightarrow> string"
  util_statusFlag :: "origin \<Rightarrow> string"
  util_qualified :: "origin \<Rightarrow> bool"
  dbutil_loadEvent :: "string \<Rightarrow> event option"
  dbutil_loadOriginWithoutArrivals :: "string \<Rightarrow> origin option"
  dbutil_loadPicksForOrigin :: "origin \<Rightarrow> origin"
  relocation_relocate :: "origin \<Rightarrow> string \<Rightarrow> real option \<Rightarrow> real \<Rightarrow> real \<Rightarrow> origin option"
  depth_computeDepth :: "string \<Rightarrow> real option"
  Pick_Find :: "string \<Rightarrow> 'p option"

record config =
  cfg_author :: string
  cfg_agencyID :: string
  cfg_minDelay :: real
  cfg_minDepth :: real
  cfg_maxResidual :: real
  cfg_test :: bool

text \<open>
  The mutable members of \<^verbatim>\<open>App\<close>: the pending events (a dict, in insertion order),
  the origin cache and the latest relocated origin per event; and two logs of what the
  application did: the origins handed to \<^verbatim>\<open>self.connection().send\<close> and the events
  handed to \<^verbatim>\<open>processEvent\<close> by \<^verbatim>\<open>kickOffProcessing\<close>, each in order.
\<close>

record app =
  pendingEvents :: "(string \<times> event) list"
  origins :: "string \<rightharpoonup> origin"
  relocated :: "string \<rightharpoonup> origin"
  sentMessages :: "origin list"
  handedOver :: "string list"

section \<open>Online relocator: readiness\<close>

definition arrivalCount :: "origin \<Rightarrow> nat" where
  "arrivalCount org = length (org_arrivals org)"

text \<open>
  The author that \<^verbatim>\<open>readyToProcess\<close> reads from an origin: the \<^verbatim>\<open>try\<close> block
  around \<^verbatim>\<open>org.creationInfo().author()\<close>.
\<close>

definition originAuthor :: "origin \<Rightarrow> string" where
  "originAuthor org =
     (case org_creationInfo org of
        None \<Rightarrow> ''MISSING''
      | Some ci \<Rightarrow> ci_author ci)"

text \<open>
  \<^verbatim>\<open>readyToProcess\<close>, with the wall-clock reading \<^verbatim>\<open>seiscomp.core.Time.GMT()\<close>
  passed in as \<open>now\<close>. The result pairs the returned boolean with the updated state.
\<close>

definition readyToProcess ::
  "'p collaborators \<Rightarrow> config \<Rightarrow> real \<Rightarrow> string \<Rightarrow> app \<Rightarrow> bool \<times> app" where
  "readyToProcess env cfg now eventID s =
     (case map_of (pendingEvents s) eventID of
        None \<Rightarrow> (False, s)
      | Some evt \<Rightarrow>
          let preferredOriginID = evt_preferredOriginID evt;
              loaded =
                (case origins s preferredOriginID of
                   Some org \<Rightarrow> Some (org, s)
                 | None \<Rightarrow>
                     (case dbutil_loadOriginWithoutArrivals env preferredOriginID of
                        None \<Rightarrow> None
                      | Some org \<Rightarrow>
                          Some (org, s\<lparr>origins := (origins s)(preferredOriginID \<mapsto> org)\<rparr>)))
          in case loaded of
               None \<Rightarrow> (False, s)
             | Some (org, s1) \<Rightarrow>
                 let dt = now - org_time org in
                 if dt < cfg_minDelay cfg then (False, s1)
                 else
                   let author = originAuthor org;
                       ownOrigin = (author = cfg_author cfg)
                   in if ownOrigin then
                        (False, s1\<lparr>pendingEvents := AList.delete eventID (pendingEvents s1)\<rparr>)
                      else if \<not> util_qualified env org then
                        (False, s1\<lparr>pendingEvents := AList.delete eventID (pendingEvents s1)\<rparr>)
                      else (True, s1))"

section \<open>Online relocator: improvement test\<close>

text \<open>
  \<^verbatim>\<open>getPicksReferencedByOrigin\<close>: one loop step per arrival. An empty pick ID, a weight
  that cannot be read or is below \<open>minWeight\<close>, and a pick that the registry does not
  know are skipped; otherwise the dict entry for the pick ID is set.
\<close>

definition referencedPickStep ::
  "'p collaborators \<Rightarrow> real \<Rightarrow> (string \<times> 'p) list \<Rightarrow> arrival \<Rightarrow> (string \<times> 'p) list" where
  "referencedPickStep env minWeight picks arr =
     (let pickID = arr_pickID arr in
      if pickID = [] then picks
      else case arr_weight arr of
             None \<Rightarrow> picks
           | Some w \<Rightarrow>
               if w < minWeight then picks
               else (case Pick_Find env pickID of
                       None \<Rightarrow> picks
                     | Some pick \<Rightarrow> AList.update pickID pick picks))"

definition getPicksReferencedByOrigin ::
  "'p collaborators \<Rightarrow> origin \<Rightarrow> real \<Rightarrow> (string \<times> 'p) list" where
  "getPicksReferencedByOrigin env org minWeight =
     foldl (referencedPickStep env minWeight) [] (org_arrivals org)"

text \<open>
  \<^verbatim>\<open>comparePicks\<close>: the body of the loop over \<open>picks1\<close>, the body of the loop over
  \<open>picks2\<close>, and the function. A dict is iterated in insertion order.
\<close>

fun commonOrOnly1 ::
  "(string \<times> 'p) list \<Rightarrow> (string \<times> 'p) list \<times> (string \<times> 'p) list \<Rightarrow> string \<times> 'p
     \<Rightarrow> (string \<times> 'p) list \<times> (string \<times> 'p) list" where
  "commonOrOnly1 picks2 (common, only1) (pickID, pick) =
     (if pickID \<in> fst ` set picks2
      then (AList.update pickID pick common, only1)
      else (common, AList.update pickID pick only1))"

fun onlyIn2 :: "(string \<times> 'p) list \<Rightarrow> (string \<times> 'p) list \<Rightarrow> string \<times> 'p \<Rightarrow> (string \<times> 'p) list" where
  "onlyIn2 picks1 only2 (pickID, pick) =
     (if pickID \<notin> fst ` set picks1 then AList.update pickID pick only2 else only2)"

definition comparePicks ::
  "'p collaborators \<Rightarrow> origin \<Rightarrow> origin \<Rightarrow>
     (string \<times> 'p) list \<times> (string \<times> 'p) list \<times> (string \<times> 'p) list" where
  "comparePicks env origin1 origin2 =
     (let picks1 = getPicksReferencedByOrigin env origin1 (1/2);
          picks2 = getPicksReferencedByOrigin env origin2 (1/2);
          (common, only1) = foldl (commonOrOnly1 picks2) ([], []) picks1;
          only2 = foldl (onlyIn2 picks1) [] picks2
      in (common, only1, only2))"

definition improvement :: "'p collaborators \<Rightarrow> origin \<Rightarrow> origin \<Rightarrow> bool" where
  "improvement env origin1 origin2 =
     (let (common, only1, only2) = comparePicks env origin1 origin2;
          count1 = length only1 + length common;
          count2 = length only2 + length common;
          rms1 = (case org_standardError origin1 of
                    Some e \<Rightarrow> max e 1
                  | None \<Rightarrow> 10);
          rms2 = (case org_standardError origin2 of
                    Some e \<Rightarrow> max e 1
                  | None \<Rightarrow> 1)
      in if count1 = 0 then True
         else
           let q = (real count2 / real count1) ^ 2 * (rms1 / rms2)
           in q > 1)"

section \<open>Online relocator: the relocation attempts\<close>

definition getFixedDepth :: "origin \<Rightarrow> real option" where
  "getFixedDepth org =
     (let lat = org_latitude org; lon = org_longitude org in
      if 50 \<le> lat \<and> lat \<le> 52 \<and> 15 \<le> lon \<and> lon \<le> 20 then Some 1 else None)"

text \<open>
  The fixed depth that \<^verbatim>\<open>processEvent\<close> adopts from the incoming origin: the
  statements between the loading of the origin and the loading of the picks.
\<close>

definition adoptFixedDepth :: "'p collaborators \<Rightarrow> config \<Rightarrow> origin \<Rightarrow> real option" where
  "adoptFixedDepth env cfg org =
     (let fixedDepth = getFixedDepth org;
          defaultDepth = (case fixedDepth of Some d \<Rightarrow> d | None \<Rightarrow> 10)
      in if util_hasFixedDepth env org then
           (if util_agencyID env org = cfg_agencyID cfg \<and> util_statusFlag env org = ''M''
            then Some (org_depth org)
            else if org_depth org = defaultDepth then Some defaultDepth
            else fixedDepth)
         else fixedDepth)"

datatype attempt = Direct | DepthPhaseBased

text \<open>
  How a call of \<^verbatim>\<open>processEvent\<close> ends: one constructor per \<^verbatim>\<open>return\<close> and
  \<^verbatim>\<open>break\<close> of the source. \<open>OriginLoadFailed\<close> is the uncaught
  \<^verbatim>\<open>AttributeError\<close> of \<^verbatim>\<open>origin.publicID()\<close> on a preferred origin that could not
  be loaded; \<open>AttemptsExhausted\<close> is the loop running out of attempts, which the
  last attempt's \<^verbatim>\<open>break\<close> precludes.
\<close>

datatype outcome =
    EventLoadFailed
  | OriginLoadFailed
  | RelocationFailed attempt
  | TooFewArrivals attempt
  | NoImprovement
  | NoDepthPhaseAttempt
  | DepthPhaseSent
  | AttemptsExhausted

text \<open>The local variables of \<^verbatim>\<open>processEvent\<close> that the loop reads and writes.\<close>

record locals =
  l_relocated :: "origin option"
  l_depthFromDepthPhases :: "real option"
  l_originWithArrivals :: origin
  l_fixedDepth :: "real option"

datatype flow = Next locals app | Break outcome app | Return outcome app

text \<open>
  The four tests that open the depth phase based attempt; \<open>None\<close> is a \<^verbatim>\<open>break\<close>,
  otherwise the previous relocation result and the depth from depth phases are adopted.
\<close>

definition depthPhaseGate :: "locals \<Rightarrow> locals option" where
  "depthPhaseGate l =
     (case l_relocated l of
        None \<Rightarrow> None
      | Some rel \<Rightarrow>
          (case l_depthFromDepthPhases l of
             None \<Rightarrow> None
           | Some d \<Rightarrow>
               if arrivalCount rel < 50 then None
               else if org_depth rel > 120 then None
               else Some (l\<lparr>l_originWithArrivals := rel, l_fixedDepth := Some d\<rparr>)))"

text \<open>
  The stamp on a relocated origin: \<^verbatim>\<open>setCreationInfo\<close> with this system's author and
  agency and the current time, and \<^verbatim>\<open>setEvaluationMode(AUTOMATIC)\<close>.
\<close>

definition stampRelocated :: "config \<Rightarrow> real \<Rightarrow> origin \<Rightarrow> origin" where
  "stampRelocated cfg now rel0 =
     rel0\<lparr>org_creationInfo :=
             Some \<lparr>ci_author = cfg_author cfg, ci_agencyID = cfg_agencyID cfg,
                   ci_creationTime = now\<rparr>,
           org_evaluationMode := Some AUTOMATIC\<rparr>"

text \<open>
  One pass of the loop body. \<open>clock att\<close> is the clock reading that stamps the result of
  the attempt. In test mode nothing is handed to the connection; otherwise the origin is
  appended to the sent messages (the boolean that \<^verbatim>\<open>send\<close> returns only selects a log
  line). The depth computation that ends the direct attempt also writes a log file, which
  is not modelled.
\<close>

definition attemptBody ::
  "'p collaborators \<Rightarrow> config \<Rightarrow> (attempt \<Rightarrow> real) \<Rightarrow> string \<Rightarrow> attempt \<Rightarrow> locals \<Rightarrow> app
     \<Rightarrow> flow" where
  "attemptBody env cfg clock eventID att l s =
     (case (if att = DepthPhaseBased then depthPhaseGate l else Some l) of
        None \<Rightarrow> Break NoDepthPhaseAttempt s
      | Some l1 \<Rightarrow>
          (case relocation_relocate env (l_originWithArrivals l1) eventID (l_fixedDepth l1)
                  (cfg_minDepth cfg) (cfg_maxResidual cfg) of
             None \<Rightarrow> Return (RelocationFailed att) s
           | Some rel0 \<Rightarrow>
               if arrivalCount rel0 < 5 then Return (TooFewArrivals att) s
               else
                 let rel = stampRelocated cfg (clock att) rel0;
                     s1 = s\<lparr>origins := (origins s)(org_publicID rel \<mapsto> rel)\<rparr>
                 in if att = Direct \<and>
                       (case relocated s1 eventID of
                          None \<Rightarrow> False
                        | Some prev \<Rightarrow> \<not> improvement env prev rel)
                    then Return NoImprovement s1
                    else
                      let s2 = (if cfg_test cfg then s1
                                else s1\<lparr>sentMessages := sentMessages s1 @ [rel]\<rparr>);
                          s3 = s2\<lparr>relocated := (relocated s2)(eventID \<mapsto> rel)\<rparr>
                      in if att = DepthPhaseBased then Break DepthPhaseSent s3
                         else Next (l1\<lparr>l_relocated := Some rel,
                                       l_depthFromDepthPhases := depth_computeDepth env eventID\<rparr>)
                                   s3))"

fun attempts ::
  "'p collaborators \<Rightarrow> config \<Rightarrow> (attempt \<Rightarrow> real) \<Rightarrow> string \<Rightarrow> attempt list \<Rightarrow> locals
     \<Rightarrow> app \<Rightarrow> outcome \<times> app" where
  "attempts env cfg clock eventID [] l s = (AttemptsExhausted, s)"
| "attempts env cfg clock eventID (att # atts) l s =
     (case attemptBody env cfg clock eventID att l s of
        Next l' s' \<Rightarrow> attempts env cfg clock eventID atts l' s'
      | Break out s' \<Rightarrow> (out, s')
      | Return out s' \<Rightarrow> (out, s'))"

definition processEvent ::
  "'p collaborators \<Rightarrow> config \<Rightarrow> (attempt \<Rightarrow> real) \<Rightarrow> string \<Rightarrow> app \<Rightarrow> outcome \<times> app" where
  "processEvent env cfg clock eventID s =
     (case dbutil_loadEvent env eventID of
        None \<Rightarrow> (EventLoadFailed, s)
      | Some evt \<Rightarrow>
          (case dbutil_loadOriginWithoutArrivals env (evt_preferredOriginID evt) of
             None \<Rightarrow> (OriginLoadFailed, s)
           | Some org \<Rightarrow>
               attempts env cfg clock eventID [Direct, DepthPhaseBased]
                 \<lparr>l_relocated = None, l_depthFromDepthPhases = None,
                  l_originWithArrivals = dbutil_loadPicksForOrigin env org,
                  l_fixedDepth = adoptFixedDepth env cfg org\<rparr> s))"

text \<open>
  \<^verbatim>\<open>kickOffProcessing\<close>: the body of its loop for one event, the loop over a list of
  event IDs, and the sweep over the sorted keys of the pending events. \<open>clock\<close> gives
  the clock reading at which an event's readiness is evaluated, \<open>aclock\<close> the reading
  that stamps the result of an attempt for an event.
\<close>

definition kickOffStep ::
  "'p collaborators \<Rightarrow> config \<Rightarrow> (string \<Rightarrow> real) \<Rightarrow> (string \<Rightarrow> attempt \<Rightarrow> real) \<Rightarrow> string
     \<Rightarrow> app \<Rightarrow> app" where
  "kickOffStep env cfg clock aclock eventID s =
     (case readyToProcess env cfg (clock eventID) eventID s of
        (ready, s1) \<Rightarrow>
          if ready then
            let s2 = s1\<lparr>pendingEvents := AList.delete eventID (pendingEvents s1)\<rparr>;
                s3 = s2\<lparr>handedOver := handedOver s2 @ [eventID]\<rparr>
            in snd (processEvent env cfg (aclock eventID) eventID s3)
          else s1)"

fun kickOffLoop ::
  "'p collaborators \<Rightarrow> config \<Rightarrow> (string \<Rightarrow> real) \<Rightarrow> (string \<Rightarrow> attempt \<Rightarrow> real)
     \<Rightarrow> string list \<Rightarrow> app \<Rightarrow> app" where
  "kickOffLoop env cfg clock aclock [] s = s"
| "kickOffLoop env cfg clock aclock (eventID # eventIDs) s =
     kickOffLoop env cfg clock aclock eventIDs (kickOffStep env cfg clock aclock eventID s)"

definition kickOffProcessing ::
  "'p collaborators \<Rightarrow> config \<Rightarrow> (string \<Rightarrow> real) \<Rightarrow> (string \<Rightarrow> attempt \<Rightarrow> real) \<Rightarrow> app \<Rightarrow> app" where
  "kickOffProcessing env cfg clock aclock s =
     kickOffLoop env cfg clock aclock (sort (map fst (pendingEvents s))) s"

text \<open>The state that a pass of the loop body leaves behind.\<close>

fun flowApp :: "flow \<Rightarrow> app" where
  "flowApp (Next l s) = s"
| "flowApp (Break out s) = s"
| "flowApp (Return out s) = s"

section \<open>Online relocator: the overlap counts, as sets\<close>



section \<open>Online relocator: a concrete scenario\<close>

text \<open>
  Fifty two-character pick IDs; an origin with the first \<open>n\<close> of them as arrivals of
  weight 1; an incoming origin without arrivals.
\<close>

definition ex_pickIDs :: "string list" where
  "ex_pickIDs = concat (map (\<lambda>a. map (\<lambda>b. [a, b]) ''0123456789'') ''01234'')"

definition ex_arrivals :: "nat \<Rightarrow> arrival list" where
  "ex_arrivals n = map (\<lambda>i. \<lparr>arr_pickID = i, arr_weight = Some 1\<rparr>) (take n ex_pickIDs)"

definition ex_relocated :: "string \<Rightarrow> nat \<Rightarrow> real \<Rightarrow> real option \<Rightarrow> origin" where
  "ex_relocated oid n dep se =
     \<lparr>org_publicID = oid, org_time = 0, org_latitude = 0, org_longitude = 0, org_depth = dep,
      org_arrivals = ex_arrivals n, org_standardError = se, org_creationInfo = None,
      org_evaluationMode = None\<rparr>"

definition ex_incoming :: "string \<Rightarrow> string \<Rightarrow> real \<Rightarrow> real \<Rightarrow> real \<Rightarrow> origin" where
  "ex_incoming oid author lat lon dep =
     \<lparr>org_publicID = oid, org_time = 0, org_latitude = lat, org_longitude = lon,
      org_depth = dep, org_arrivals = [], org_standardError = None,
      org_creationInfo = Some \<lparr>ci_author = author, ci_agencyID = ''GFZ'', ci_creationTime = 0\<rparr>,
      org_evaluationMode = None\<rparr>"

text \<open>
  Collaborators: event \<open>ev1\<close> prefers an origin of another author, event \<open>ev2\<close> an
  origin of this system's own author; the origins \<open>Origin/manual\<close> and \<open>Origin/fixed\<close>
  have a fixed depth, and only the former has manual status. A relocation with free depth returns an origin with \<open>n\<close> arrivals at
  depth \<open>dep\<close>; one with fixed depth returns an origin with five arrivals at that depth.
  The depth from depth phases is \<open>dd\<close>. The registry knows every pick.
\<close>

definition ex_env :: "nat \<Rightarrow> real \<Rightarrow> real option \<Rightarrow> string collaborators" where
  "ex_env n dep dd =
     \<lparr>util_hasFixedDepth =
        (\<lambda>org. org_publicID org = ''Origin/manual'' \<or> org_publicID org = ''Origin/fixed''),
      util_agencyID = (\<lambda>org. ''GFZ''),
      util_statusFlag = (\<lambda>org. if org_publicID org = ''Origin/manual'' then ''M'' else ''A''),
      util_qualified = (\<lambda>org. True),
      dbutil_loadEvent =
        (\<lambda>i. if i = ''ev1'' then Some \<lparr>evt_publicID = ''ev1'', evt_preferredOriginID = ''Origin/auto''\<rparr>
             else if i = ''ev2'' then Some \<lparr>evt_publicID = ''ev2'', evt_preferredOriginID = ''Origin/own''\<rparr>
             else None),
      dbutil_loadOriginWithoutArrivals =
        (\<lambda>i. if i = ''Origin/auto'' then Some (ex_incoming ''Origin/auto'' ''scautoloc'' 0 0 33)
             else if i = ''Origin/own'' then Some (ex_incoming ''Origin/own'' ''dl-reloc'' 0 0 33)
             else None),
      dbutil_loadPicksForOrigin = (\<lambda>org. org),
      relocation_relocate =
        (\<lambda>org eventID fixedDepth minDepth maxResidual.
           case fixedDepth of
             None \<Rightarrow> Some (ex_relocated ''Origin/direct'' n dep (Some 1))
           | Some d \<Rightarrow> Some (ex_relocated ''Origin/depth'' 5 d (Some 1))),
      depth_computeDepth = (\<lambda>i. dd),
      Pick_Find = (\<lambda>i. Some i)\<rparr>"

definition ex_cfg :: config where
  "ex_cfg = \<lparr>cfg_author = ''dl-reloc'', cfg_agencyID = ''GFZ'', cfg_minDelay = 1200,
             cfg_minDepth = 10, cfg_maxResidual = 2, cfg_test = False\<rparr>"

definition ex_app :: app where
  "ex_app =
     \<lparr>pendingEvents =
        [(''ev1'', \<lparr>evt_publicID = ''ev1'', evt_preferredOriginID = ''Origin/auto''\<rparr>),
         (''ev2'', \<lparr>evt_publicID = ''ev2'', evt_preferredOriginID = ''Origin/own''\<rparr>)],
      origins = Map.empty, relocated = Map.empty, sentMessages = [], handedOver = []\<rparr>"

section \<open>Repicker (bin/scdlpicker.repicker.py): data\<close>

text \<open>
  A pick record of a YAML payload (an \<^verbatim>\<open>AttribDict\<close>). The fields that the mailbox
  pipeline reads or writes are modelled; the phase hint, the model name and the
  confidence may be absent. The time is the text of the payload.
\<close>

record pick =
  pk_publicID :: string
  pk_streamID :: string
  pk_time :: string
  pk_phaseHint :: "string option"
  pk_model :: "string option"
  pk_confidence :: "real option"

datatype pyerror = RuntimeError | AssertionError | KeyError | IndexError | OSError

text \<open>\<^verbatim>\<open>EventWorkspaceContainer\<close>: the picks seen and the ML picks made for one event.\<close>

record workspace =
  ws_picks :: "string \<rightharpoonup> pick"
  ws_mlpicks :: "string \<rightharpoonup> pick"

text \<open>
  The in-memory state of a \<^verbatim>\<open>Repicker\<close>: the workspaces per event, and two logs of
  what it did: the calls of \<^verbatim>\<open>_ml_predict\<close> (event and the public IDs of the picks
  passed), and the spool items handed to \<^verbatim>\<open>_process\<close> (link and target).
\<close>

record repicker =
  workspaces :: "string \<rightharpoonup> workspace"
  predictCalls :: "(string \<times> string list) list"
  processLog :: "(string \<times> string) list"

text \<open>
  Parameters: the prediction \<^verbatim>\<open>_ml_predict\<close> (waveform reading and the model), which
  returns the predictions per pick ID as (time, confidence) pairs or raises; the parser
  \<^verbatim>\<open>obspy.UTCDateTime\<close> of a time text; \<^verbatim>\<open>isoformat\<close> of a time; and the rounding
  \<^verbatim>\<open>float("%.3f" % x)\<close>.
\<close>

record rcollab =
  ml_predict :: "pick list \<Rightarrow> string \<Rightarrow> pyerror + (string \<times> (real \<times> real) list) list"
  UTCDateTime :: "string \<Rightarrow> real"
  isoformat :: "real \<Rightarrow> string"
  round3 :: "real \<Rightarrow> real"

record rconfig =
  rc_model_name :: string
  rc_minConfidence :: real
  rc_test :: bool
  rc_workingDir :: string
  rc_eventRootDir :: string
  rc_spoolDir :: string

definition initialRepicker :: repicker where
  "initialRepicker = \<lparr>workspaces = Map.empty, predictCalls = [], processLog = []\<rparr>"

section \<open>Repicker: processing the picks of one payload\<close>

text \<open>
  The first loop of \<^verbatim>\<open>_process\<close>: a pick whose public ID is not yet in
  \<^verbatim>\<open>workspace.picks\<close> is stored there and appended to the new picks.
\<close>

fun newAdhocPicks ::
  "pick list \<Rightarrow> (string \<rightharpoonup> pick) \<times> pick list \<Rightarrow> (string \<rightharpoonup> pick) \<times> pick list" where
  "newAdhocPicks [] acc = acc"
| "newAdhocPicks (p # ps) (picks, new_adhoc_picks) =
     (if picks (pk_publicID p) = None
      then newAdhocPicks ps (picks(pk_publicID p \<mapsto> p), new_adhoc_picks @ [p])
      else newAdhocPicks ps (picks, new_adhoc_picks))"

text \<open>
  The inner loop over the (time, confidence) pairs predicted for one pick. The result is
  the error raised, if any, with \<^verbatim>\<open>workspace.mlpicks\<close> and the new picks so far.
\<close>

fun collectPairs ::
  "rcollab \<Rightarrow> rconfig \<Rightarrow> string \<Rightarrow> pick \<Rightarrow> (real \<times> real) list
     \<Rightarrow> (string \<rightharpoonup> pick) \<times> pick list \<Rightarrow> pyerror option \<times> (string \<rightharpoonup> pick) \<times> pick list" where
  "collectPairs env cfg pick_id old_pick [] (mlpicks, new_picks) = (None, mlpicks, new_picks)"
| "collectPairs env cfg pick_id old_pick ((ml_time, ml_conf) # preds) (mlpicks, new_picks) =
     (let ml_timestamp = take 23 (isoformat env ml_time @ ''000000'') @ ''Z'';
          dt_max = 10;
          dt = \<bar>ml_time - UTCDateTime env (pk_time old_pick)\<bar>
      in if \<bar>dt\<bar> > dt_max then collectPairs env cfg pick_id old_pick preds (mlpicks, new_picks)
         else if ml_conf < rc_minConfidence cfg
         then collectPairs env cfg pick_id old_pick preds (mlpicks, new_picks)
         else
           let new_pick = old_pick\<lparr>pk_publicID := pk_publicID old_pick @ ''/repick'',
                                    pk_model := Some (rc_model_name cfg),
                                    pk_confidence := Some (round3 env ml_conf),
                                    pk_time := ml_timestamp\<rparr>;
               mlpicks' = mlpicks(pick_id \<mapsto> new_pick)
           in if new_pick \<in> set new_picks then (Some AssertionError, mlpicks', new_picks)
              else collectPairs env cfg pick_id old_pick preds (mlpicks', new_picks @ [new_pick]))"

text \<open>
  The outer loop over the predictions; \<^verbatim>\<open>workspace.picks[pick_id]\<close> raises
  \<^verbatim>\<open>KeyError\<close> for a pick ID that is not in the workspace.
\<close>

fun collectPredictions ::
  "rcollab \<Rightarrow> rconfig \<Rightarrow> (string \<rightharpoonup> pick) \<Rightarrow> (string \<times> (real \<times> real) list) list
     \<Rightarrow> (string \<rightharpoonup> pick) \<times> pick list \<Rightarrow> pyerror option \<times> (string \<rightharpoonup> pick) \<times> pick list" where
  "collectPredictions env cfg picks [] (mlpicks, new_picks) = (None, mlpicks, new_picks)"
| "collectPredictions env cfg picks ((pick_id, preds) # predictions) (mlpicks, new_picks) =
     (case picks pick_id of
        None \<Rightarrow> (Some KeyError, mlpicks, new_picks)
      | Some triggering_pick \<Rightarrow>
          (case collectPairs env cfg pick_id triggering_pick preds (mlpicks, new_picks) of
             (Some e, mlpicks', new_picks') \<Rightarrow> (Some e, mlpicks', new_picks')
           | (None, mlpicks', new_picks') \<Rightarrow>
               collectPredictions env cfg picks predictions (mlpicks', new_picks')))"

text \<open>
  \<^verbatim>\<open>_process\<close>: the returned list of new ML picks, or the exception raised, with the
  state of the repicker afterwards.
\<close>

definition process ::
  "rcollab \<Rightarrow> rconfig \<Rightarrow> pick list \<Rightarrow> string \<Rightarrow> repicker \<Rightarrow> (pyerror + pick list) \<times> repicker" where
  "process env cfg adhoc_picks eventID st =
     (let workspace = (case workspaces st eventID of
                         None \<Rightarrow> \<lparr>ws_picks = Map.empty, ws_mlpicks = Map.empty\<rparr>
                       | Some w \<Rightarrow> w);
          (picks', new_adhoc_picks) = newAdhocPicks adhoc_picks (ws_picks workspace, []);
          workspace1 = workspace\<lparr>ws_picks := picks'\<rparr>;
          st1 = st\<lparr>workspaces := (workspaces st)(eventID \<mapsto> workspace1)\<rparr>
      in if new_adhoc_picks = [] then (Inr [], st1)
         else
           let st2 = st1\<lparr>predictCalls :=
                           predictCalls st1 @ [(eventID, map pk_publicID new_adhoc_picks)]\<rparr>
           in case ml_predict env new_adhoc_picks eventID of
                Inl e \<Rightarrow> (Inl e, st2)
              | Inr predictions \<Rightarrow>
                  if predictions = [] then (Inr [], st2)
                  else
                    (case collectPredictions env cfg picks' predictions
                            (ws_mlpicks workspace1, []) of
                       (err, mlpicks', new_picks) \<Rightarrow>
                         let st3 = st2\<lparr>workspaces :=
                                        (workspaces st2)(eventID \<mapsto>
                                           workspace1\<lparr>ws_mlpicks := mlpicks'\<rparr>)\<rparr>
                         in (case err of
                               Some e \<Rightarrow> (Inl e, st3)
                             | None \<Rightarrow> (Inr new_picks, st3))))"

text \<open>The public IDs passed to the prediction for an event so far, in order.\<close>

definition submitted :: "repicker \<Rightarrow> string \<Rightarrow> string list" where
  "submitted st eventID =
     concat (map snd (filter (\<lambda>call. fst call = eventID) (predictCalls st)))"





section \<open>Repicker: the spool directory\<close>

text \<open>
  The file system as the repicker sees it: the entries of the spool directory by name,
  the YAML files by path with the pick records they hold, and the symbolic links outside
  the spool directory by path (the outgoing directory is taken to be a directory other
  than the spool directory). A path exists when it is a YAML file or such a link.
\<close>

datatype dirent = Symlink string | RegularFile

record filesystem =
  fs_spool :: "(string \<times> dirent) list"
  fs_yaml :: "string \<rightharpoonup> pick list"
  fs_links :: "string \<rightharpoonup> string"

definition endswith :: "string \<Rightarrow> string \<Rightarrow> bool" where
  "endswith s suffix \<longleftrightarrow>
     length suffix \<le> length s \<and> drop (length s - length suffix) s = suffix"

text \<open>\<^verbatim>\<open>os.path.join\<close> of two components, and \<^verbatim>\<open>str.split\<close> on a separator.\<close>

definition path_join :: "string \<Rightarrow> string \<Rightarrow> string" where
  "path_join a b =
     (if b \<noteq> [] \<and> hd b = CHR ''/'' then b
      else if a = [] \<or> last a = CHR ''/'' then a @ b
      else a @ ''/'' @ b)"

fun split_on :: "char \<Rightarrow> string \<Rightarrow> string list" where
  "split_on c [] = [[]]"
| "split_on c (x # xs) =
     (if x = c then [] # split_on c xs
      else (case split_on c xs of
              [] \<Rightarrow> [[x]]
            | w # ws \<Rightarrow> (x # w) # ws))"

text \<open>The paths of the entries of the spool directory.\<close>

definition spoolPaths :: "rconfig \<Rightarrow> filesystem \<Rightarrow> string set" where
  "spoolPaths cfg fs = (\<lambda>entry. path_join (rc_spoolDir cfg) (fst entry)) ` set (fs_spool fs)"

text \<open>
  \<^verbatim>\<open>_findSpoolItems\<close>: the names ending in \<^verbatim>\<open>.yaml\<close>, sorted; each one that is a
  link whose target exists gives an item (path, target).
\<close>

definition findSpoolItems :: "rconfig \<Rightarrow> filesystem \<Rightarrow> (string \<times> string) list" where
  "findSpoolItems cfg fs =
     (let d = rc_spoolDir cfg;
          filenames = filter (\<lambda>i. endswith i ''.yaml'') (map fst (fs_spool fs))
      in concat (map (\<lambda>filename.
                   let path = path_join d filename
                   in case map_of (fs_spool fs) filename of
                        Some (Symlink target0) \<Rightarrow>
                          let target = path_join d target0
                          in if fs_yaml fs target = None then [] else [(path, target)]
                      | _ \<Rightarrow> [])
                 (sort filenames)))"

text \<open>\<^verbatim>\<open>_readPicksFromYaml\<close>: the loop, with the stream IDs met so far.\<close>

fun readPicksLoop :: "pick list \<Rightarrow> string list \<Rightarrow> pick list" where
  "readPicksLoop [] streamIDs = []"
| "readPicksLoop (p # ps) streamIDs =
     (if pk_streamID p \<in> set streamIDs then readPicksLoop ps streamIDs
      else p\<lparr>pk_phaseHint := Some (case pk_phaseHint p of None \<Rightarrow> ''P'' | Some h \<Rightarrow> h)\<rparr>
           # readPicksLoop ps (streamIDs @ [pk_streamID p]))"

definition readPicksFromYaml :: "pick list \<Rightarrow> pick list" where
  "readPicksFromYaml records = readPicksLoop records []"

text \<open>\<^verbatim>\<open>os.remove(link)\<close> of an entry of the spool directory.\<close>

definition os_remove :: "rconfig \<Rightarrow> string \<Rightarrow> filesystem \<Rightarrow> filesystem" where
  "os_remove cfg link fs =
     fs\<lparr>fs_spool := filter (\<lambda>entry. path_join (rc_spoolDir cfg) (fst entry) \<noteq> link) (fs_spool fs)\<rparr>"

text \<open>
  The body of the loop of \<^verbatim>\<open>_poll\<close> for one item: either the loop goes on to the
  next item (\<^verbatim>\<open>continue\<close>, or the end of the body), or the pass ends, by an exception
  or by the \<^verbatim>\<open>break\<close> of the reverse mode. A \<^verbatim>\<open>RuntimeError\<close> of
  \<^verbatim>\<open>_process\<close> is caught and the loop continues; any other exception ends the pass.
\<close>

datatype pollFlow = Continue filesystem repicker | Stop "pyerror option" filesystem repicker

fun pollItem ::
  "rcollab \<Rightarrow> rconfig \<Rightarrow> bool \<Rightarrow> string \<times> string \<Rightarrow> filesystem \<times> repicker \<Rightarrow> pollFlow" where
  "pollItem env cfg reverse (link, target) (fs, st) =
     (case fs_yaml fs target of
        None \<Rightarrow> Stop (Some OSError) fs st
      | Some records \<Rightarrow>
          let adhoc_picks = readPicksFromYaml records in
          if \<not> endswith target ''.yaml'' then Stop (Some AssertionError) fs st
          else
            let parts = split_on CHR ''/'' target in
            if length parts < 3 then Stop (Some IndexError) fs st
            else
              let eventID = parts ! (length parts - 3);
                  st0 = st\<lparr>processLog := processLog st @ [(link, target)]\<rparr>;
                  result = process env cfg adhoc_picks eventID st0;
                  st1 = snd result
              in case fst result of
                   Inl e \<Rightarrow> if e = RuntimeError then Continue fs st1 else Stop (Some e) fs st1
                 | Inr new_picks \<Rightarrow>
                     if new_picks = [] then Continue (os_remove cfg link fs) st1
                     else if rc_test cfg then Continue fs st1
                     else
                       let out_d = path_join (path_join (rc_eventRootDir cfg) eventID) ''out'';
                           outgoing_d = path_join (rc_workingDir cfg) ''outgoing'';
                           f = last (split_on CHR ''/'' link);
                           yamlfilename = path_join out_d f;
                           fs1 = fs\<lparr>fs_yaml := (fs_yaml fs)(yamlfilename \<mapsto> new_picks)\<rparr>;
                           dst = path_join outgoing_d f;
                           src = path_join (path_join (path_join (path_join ''..''
                                   (rc_eventRootDir cfg)) eventID) ''out'') f;
                           fs2 = (if fs_links fs1 dst \<noteq> None \<or> fs_yaml fs1 dst \<noteq> None then fs1
                                  else fs1\<lparr>fs_links := (fs_links fs1)(dst \<mapsto> src)\<rparr>);
                           fs3 = os_remove cfg link fs2
                       in if reverse then Stop None fs3 st1 else Continue fs3 st1)"

text \<open>
  The loop of \<^verbatim>\<open>_poll\<close> over the items found. The result is the exception that ended
  the pass, if any, with the file system and the repicker afterwards.
\<close>

fun pollItems ::
  "rcollab \<Rightarrow> rconfig \<Rightarrow> bool \<Rightarrow> (string \<times> string) list \<Rightarrow> filesystem \<times> repicker
     \<Rightarrow> pyerror option \<times> filesystem \<times> repicker" where
  "pollItems env cfg reverse [] (fs, st) = (None, fs, st)"
| "pollItems env cfg reverse (item # items) (fs, st) =
     (case pollItem env cfg reverse item (fs, st) of
        Continue fs' st' \<Rightarrow> pollItems env cfg reverse items (fs', st')
      | Stop e fs' st' \<Rightarrow> (e, fs', st'))"

definition poll ::
  "rcollab \<Rightarrow> rconfig \<Rightarrow> bool \<Rightarrow> filesystem \<times> repicker \<Rightarrow> pyerror option \<times> filesystem \<times> repicker" where
  "poll env cfg reverse x =
     (let spooled = findSpoolItems cfg (fst x);
          items = (if reverse then rev (sort spooled) else sort spooled)
      in pollItems env cfg reverse items x)"

text \<open>
  The main loop \<^verbatim>\<open>run\<close>, for \<open>n\<close> passes: a pass that ends in an exception ends the
  process, and the next pass is that of a restarted repicker, with its in-memory state
  empty and the file system as it was left.
\<close>

fun passes :: "rcollab \<Rightarrow> rconfig \<Rightarrow> nat \<Rightarrow> filesystem \<times> repicker \<Rightarrow> filesystem \<times> repicker" where
  "passes env cfg 0 x = x"
| "passes env cfg (Suc n) x =
     (case poll env cfg True x of
        (None, fs', st') \<Rightarrow> passes env cfg n (fs', st')
      | (Some e, fs', st') \<Rightarrow>
          passes env cfg n (fs', initialRepicker\<lparr>processLog := processLog st'\<rparr>))"

section \<open>Repicker: a concrete scenario\<close>

text \<open>
  One link \<open>a.yaml\<close> in the spool directory, pointing at a payload of event \<open>ev1\<close>
  with two picks. The prediction either raises \<^verbatim>\<open>RuntimeError\<close> or returns one
  (time, confidence) pair per pick that passes both thresholds.
\<close>

definition ex_pick :: "string \<Rightarrow> pick" where
  "ex_pick i = \<lparr>pk_publicID = ''Pick/'' @ i, pk_streamID = ''GE.'' @ i, pk_time = ''t0'',
                pk_phaseHint = None, pk_model = None, pk_confidence = None\<rparr>"

definition ex_rcollab :: "bool \<Rightarrow> rcollab" where
  "ex_rcollab fails =
     \<lparr>ml_predict = (\<lambda>picks eventID.
        if fails then Inl RuntimeError
        else Inr (map (\<lambda>p. (pk_publicID p, [(3, 9/10)])) picks)),
      UTCDateTime = (\<lambda>t. 0),
      isoformat = (\<lambda>t. ''2020-01-01T00:00:03.000000''),
      round3 = (\<lambda>x. x)\<rparr>"

definition ex_rcfg :: rconfig where
  "ex_rcfg = \<lparr>rc_model_name = ''eqtransformer'', rc_minConfidence = 3/10, rc_test = False,
              rc_workingDir = ''.'', rc_eventRootDir = ''./events'', rc_spoolDir = ''./spool''\<rparr>"

definition ex_fs :: filesystem where
  "ex_fs = \<lparr>fs_spool = [(''a.yaml'', Symlink ''../events/ev1/in/a.yaml'')],
            fs_yaml = [''./spool/../events/ev1/in/a.yaml'' \<mapsto> [ex_pick ''1'', ex_pick ''2'']],
            fs_links = Map.empty\<rparr>"

section \<open>Epoch test: properties\<close>

text \<open>
  C10. For every inventory item and query time, \<open>operational\<close> is False whenever the
  start time is unavailable or the time is before the start; when the start is known and
  not after the time, it is True if the end time is unavailable (open end), and otherwise
  True exactly when the time is not after the end. Both boundaries are inclusive: a time
  equal to the start or equal to the end is operational.
\<close>

theorem operational_epoch:
  fixes obj :: "('t::linorder) inventory_item"
  shows "(item_start obj = None \<longrightarrow> \<not> operational obj t)
       \<and> (\<forall>s. item_start obj = Some s \<and> t < s \<longrightarrow> \<not> operational obj t)
       \<and> (\<forall>s. item_start obj = Some s \<and> s \<le> t \<and> item_end obj = None \<longrightarrow> operational obj t)
       \<and> (\<forall>s e. item_start obj = Some s \<and> s \<le> t \<and> item_end obj = Some e
              \<longrightarrow> (operational obj t \<longleftrightarrow> t \<le> e))
       \<and> (item_start obj = Some t \<and> item_end obj = None \<longrightarrow> operational obj t)
       \<and> (\<forall>s. item_start obj = Some s \<and> s \<le> t \<and> item_end obj = Some t \<longrightarrow> operational obj t)"
  by (auto simp: operational_def split: option.splits)

theorem operational_epoch_witness:
  "operational \<lparr>item_start = Some (10::int), item_end = None\<rparr> 10
   \<and> operational \<lparr>item_start = Some (10::int), item_end = Some 20\<rparr> 20
   \<and> \<not> operational \<lparr>item_start = Some (10::int), item_end = Some 20\<rparr> 21
   \<and> \<not> operational \<lparr>item_start = Some (10::int), item_end = Some 20\<rparr> 9
   \<and> \<not> operational \<lparr>item_start = None, item_end = Some (20::int)\<rparr> 15"
  using operational_epoch [of "\<lparr>item_start = Some (10::int), item_end = None\<rparr>" 10]
    operational_epoch [of "\<lparr>item_start = Some (10::int), item_end = Some 20\<rparr>" 20]
    operational_epoch [of "\<lparr>item_start = Some (10::int), item_end = Some 20\<rparr>" 21]
    operational_epoch [of "\<lparr>item_start = Some (10::int), item_end = Some 20\<rparr>" 9]
    operational_epoch [of "\<lparr>item_start = None, item_end = Some (20::int)\<rparr>" 15]
  by simp

section \<open>Improvement test: properties\<close>






















lemma ex_relocated_sel:
  "org_standardError (ex_relocated oid n d se) = se"
  "org_depth (ex_relocated oid n d se) = d"
  "org_publicID (ex_relocated oid n d se) = oid"
  by (simp_all add: ex_relocated_def)


section \<open>Readiness: properties\<close>

lemma ex_env_sel:
  "util_hasFixedDepth (ex_env n dep dd)
     = (\<lambda>org. org_publicID org = ''Origin/manual'' \<or> org_publicID org = ''Origin/fixed'')"
  "util_agencyID (ex_env n dep dd) = (\<lambda>org. ''GFZ'')"
  "util_statusFlag (ex_env n dep dd) =
     (\<lambda>org. if org_publicID org = ''Origin/manual'' then ''M'' else ''A'')"
  "util_qualified (ex_env n dep dd) = (\<lambda>org. True)"
  "dbutil_loadPicksForOrigin (ex_env n dep dd) = (\<lambda>org. org)"
  "depth_computeDepth (ex_env n dep dd) = (\<lambda>i. dd)"
  "Pick_Find (ex_env n dep dd) = (\<lambda>i. Some i)"
  "dbutil_loadEvent (ex_env n dep dd) ''ev1''
     = Some \<lparr>evt_publicID = ''ev1'', evt_preferredOriginID = ''Origin/auto''\<rparr>"
  "dbutil_loadEvent (ex_env n dep dd) ''ev2''
     = Some \<lparr>evt_publicID = ''ev2'', evt_preferredOriginID = ''Origin/own''\<rparr>"
  "dbutil_loadOriginWithoutArrivals (ex_env n dep dd) ''Origin/auto''
     = Some (ex_incoming ''Origin/auto'' ''scautoloc'' 0 0 33)"
  "dbutil_loadOriginWithoutArrivals (ex_env n dep dd) ''Origin/own''
     = Some (ex_incoming ''Origin/own'' ''dl-reloc'' 0 0 33)"
  "relocation_relocate (ex_env n dep dd) org eventID None minDepth maxResidual
     = Some (ex_relocated ''Origin/direct'' n dep (Some 1))"
  "relocation_relocate (ex_env n dep dd) org eventID (Some d) minDepth maxResidual
     = Some (ex_relocated ''Origin/depth'' 5 d (Some 1))"
  by (simp_all add: ex_env_def)

lemma ex_incoming_sel:
  "org_publicID (ex_incoming oid author lat lon dep) = oid"
  "org_time (ex_incoming oid author lat lon dep) = 0"
  "org_latitude (ex_incoming oid author lat lon dep) = lat"
  "org_longitude (ex_incoming oid author lat lon dep) = lon"
  "org_depth (ex_incoming oid author lat lon dep) = dep"
  "originAuthor (ex_incoming oid author lat lon dep) = author"
  by (simp_all add: ex_incoming_def originAuthor_def)

lemma ex_app_sel:
  "map_of (pendingEvents ex_app) ''ev1''
     = Some \<lparr>evt_publicID = ''ev1'', evt_preferredOriginID = ''Origin/auto''\<rparr>"
  "map_of (pendingEvents ex_app) ''ev2''
     = Some \<lparr>evt_publicID = ''ev2'', evt_preferredOriginID = ''Origin/own''\<rparr>"
  "origins ex_app = Map.empty"
  "relocated ex_app = Map.empty"
  "sentMessages ex_app = []"
  "handedOver ex_app = []"
  by (simp_all add: ex_app_def)

lemma ex_cfg_sel:
  "cfg_author ex_cfg = ''dl-reloc''"
  "cfg_agencyID ex_cfg = ''GFZ''"
  "cfg_minDelay ex_cfg = 1200"
  "cfg_test ex_cfg = False"
  by (simp_all add: ex_cfg_def)

text \<open>
  C5. For a pending event whose preferred origin has been loaded (from the cache or from
  the catalog) and passes the author and qualification checks, the readiness evaluation
  returns Ready exactly when the time elapsed since the origin time is at least the
  minimum delay; elapsed time equal to the minimum delay is Ready, any smaller elapsed
  time is NotReady, and the event stays in the pending set.
\<close>

theorem ready_iff_delay_elapsed:
  assumes "map_of (pendingEvents s) eventID = Some evt"
    and "origins s (evt_preferredOriginID evt) = Some org
         \<or> (origins s (evt_preferredOriginID evt) = None
            \<and> dbutil_loadOriginWithoutArrivals env (evt_preferredOriginID evt) = Some org)"
    and "originAuthor org \<noteq> cfg_author cfg"
    and "util_qualified env org"
  shows "fst (readyToProcess env cfg now eventID s) = (now - org_time org \<ge> cfg_minDelay cfg)
       \<and> (now - org_time org = cfg_minDelay cfg \<longrightarrow> fst (readyToProcess env cfg now eventID s))
       \<and> (now - org_time org < cfg_minDelay cfg \<longrightarrow> \<not> fst (readyToProcess env cfg now eventID s))
       \<and> pendingEvents (snd (readyToProcess env cfg now eventID s)) = pendingEvents s"
  using assms by (auto simp: readyToProcess_def Let_def not_less split: if_splits)

theorem ready_iff_delay_elapsed_witness:
  "\<not> fst (readyToProcess (ex_env 50 120 None) ex_cfg 1140 ''ev1'' ex_app)
   \<and> fst (readyToProcess (ex_env 50 120 None) ex_cfg 1200 ''ev1'' ex_app)
   \<and> fst (readyToProcess (ex_env 50 120 None) ex_cfg 1260 ''ev1'' ex_app)"
  using
    ready_iff_delay_elapsed [of ex_app "''ev1''"
      "\<lparr>evt_publicID = ''ev1'', evt_preferredOriginID = ''Origin/auto''\<rparr>"
      "ex_incoming ''Origin/auto'' ''scautoloc'' 0 0 33" "ex_env 50 120 None" ex_cfg 1140]
    ready_iff_delay_elapsed [of ex_app "''ev1''"
      "\<lparr>evt_publicID = ''ev1'', evt_preferredOriginID = ''Origin/auto''\<rparr>"
      "ex_incoming ''Origin/auto'' ''scautoloc'' 0 0 33" "ex_env 50 120 None" ex_cfg 1200]
    ready_iff_delay_elapsed [of ex_app "''ev1''"
      "\<lparr>evt_publicID = ''ev1'', evt_preferredOriginID = ''Origin/auto''\<rparr>"
      "ex_incoming ''Origin/auto'' ''scautoloc'' 0 0 33" "ex_env 50 120 None" ex_cfg 1260]
  by (simp add: ex_env_sel ex_incoming_sel ex_app_sel ex_cfg_sel)




section \<open>Fixed depth: properties\<close>

text \<open>
  C3, as the claim states it, fails: for a trusted manual origin with a fixed depth of
  5 km inside the region with an override of 1 km, the fixed depth adopted is the
  origin's 5 km, not the region's 1 km.
\<close>

theorem region_override_loses_to_manual_depth:
  "getFixedDepth (ex_incoming ''Origin/manual'' ''analyst'' 51 17 5) = Some 1
   \<and> adoptFixedDepth (ex_env 50 120 None) ex_cfg (ex_incoming ''Origin/manual'' ''analyst'' 51 17 5)
       = Some 5"
  by (simp add: getFixedDepth_def adoptFixedDepth_def ex_env_sel ex_incoming_sel ex_cfg_sel)

text \<open>
  C3, amended. The trusted manual depth (the origin has a fixed depth, its agency is this
  system's own agency and its status is manual) takes precedence over the explicit
  region override, which takes precedence over the default-depth passthrough (the origin
  has a fixed depth equal to the default of 10 km); if none applies the depth is free.
\<close>

theorem adoptFixedDepth_precedence:
  "adoptFixedDepth env cfg org =
     (if util_hasFixedDepth env org \<and> util_agencyID env org = cfg_agencyID cfg
           \<and> util_statusFlag env org = ''M''
      then Some (org_depth org)
      else if getFixedDepth org \<noteq> None then getFixedDepth org
      else if util_hasFixedDepth env org \<and> org_depth org = 10 then Some 10
      else None)"
  by (auto simp: adoptFixedDepth_def getFixedDepth_def Let_def)

theorem adoptFixedDepth_precedence_witness:
  "adoptFixedDepth (ex_env 50 120 None) ex_cfg (ex_incoming ''Origin/manual'' ''analyst'' 51 17 5)
     = Some 5
   \<and> adoptFixedDepth (ex_env 50 120 None) ex_cfg (ex_incoming ''Origin/auto'' ''scautoloc'' 51 17 5)
     = Some 1
   \<and> adoptFixedDepth (ex_env 50 120 None) ex_cfg (ex_incoming ''Origin/fixed'' ''scautoloc'' 0 0 10)
     = Some 10
   \<and> adoptFixedDepth (ex_env 50 120 None) ex_cfg (ex_incoming ''Origin/auto'' ''scautoloc'' 0 0 10)
     = None"
  using
    adoptFixedDepth_precedence [of "ex_env 50 120 None" ex_cfg
      "ex_incoming ''Origin/manual'' ''analyst'' 51 17 5"]
    adoptFixedDepth_precedence [of "ex_env 50 120 None" ex_cfg
      "ex_incoming ''Origin/auto'' ''scautoloc'' 51 17 5"]
    adoptFixedDepth_precedence [of "ex_env 50 120 None" ex_cfg
      "ex_incoming ''Origin/fixed'' ''scautoloc'' 0 0 10"]
    adoptFixedDepth_precedence [of "ex_env 50 120 None" ex_cfg
      "ex_incoming ''Origin/auto'' ''scautoloc'' 0 0 10"]
  by (simp add: getFixedDepth_def ex_env_sel ex_incoming_sel ex_cfg_sel)

section \<open>Relocation attempts: properties\<close>

lemma stamp_simps:
  "arrivalCount (stampRelocated cfg t r) = arrivalCount r"
  "org_depth (stampRelocated cfg t r) = org_depth r"
  "org_publicID (stampRelocated cfg t r) = org_publicID r"
  by (simp_all add: stampRelocated_def arrivalCount_def)

lemma attemptBody_Direct:
  "attemptBody env cfg clock eventID Direct l s =
     (case relocation_relocate env (l_originWithArrivals l) eventID (l_fixedDepth l)
             (cfg_minDepth cfg) (cfg_maxResidual cfg) of
        None \<Rightarrow> Return (RelocationFailed Direct) s
      | Some rel0 \<Rightarrow>
          if arrivalCount rel0 < 5 then Return (TooFewArrivals Direct) s
          else if (case relocated s eventID of None \<Rightarrow> False
                   | Some prev \<Rightarrow> \<not> improvement env prev (stampRelocated cfg (clock Direct) rel0))
          then Return NoImprovement
                 (s\<lparr>origins := (origins s)(org_publicID rel0 \<mapsto> stampRelocated cfg (clock Direct) rel0)\<rparr>)
          else Next (l\<lparr>l_relocated := Some (stampRelocated cfg (clock Direct) rel0),
                       l_depthFromDepthPhases := depth_computeDepth env eventID\<rparr>)
                 (s\<lparr>origins := (origins s)(org_publicID rel0 \<mapsto> stampRelocated cfg (clock Direct) rel0),
                    sentMessages := (if cfg_test cfg then sentMessages s
                                     else sentMessages s @ [stampRelocated cfg (clock Direct) rel0]),
                    relocated := (relocated s)(eventID \<mapsto> stampRelocated cfg (clock Direct) rel0)\<rparr>))"
  by (simp add: attemptBody_def Let_def stamp_simps split: option.splits)

lemma attemptBody_DepthPhaseBased:
  "attemptBody env cfg clock eventID DepthPhaseBased l s =
     (case depthPhaseGate l of
        None \<Rightarrow> Break NoDepthPhaseAttempt s
      | Some l1 \<Rightarrow>
         (case relocation_relocate env (l_originWithArrivals l1) eventID (l_fixedDepth l1)
             (cfg_minDepth cfg) (cfg_maxResidual cfg) of
            None \<Rightarrow> Return (RelocationFailed DepthPhaseBased) s
          | Some rel0 \<Rightarrow>
              if arrivalCount rel0 < 5 then Return (TooFewArrivals DepthPhaseBased) s
              else Break DepthPhaseSent
                 (s\<lparr>origins := (origins s)(org_publicID rel0 \<mapsto> stampRelocated cfg (clock DepthPhaseBased) rel0),
                    sentMessages := (if cfg_test cfg then sentMessages s
                                     else sentMessages s @ [stampRelocated cfg (clock DepthPhaseBased) rel0]),
                    relocated := (relocated s)(eventID \<mapsto> stampRelocated cfg (clock DepthPhaseBased) rel0)\<rparr>)))"
  by (simp add: attemptBody_def Let_def stamp_simps split: option.splits)

lemma ex_arrivalCount:
  "arrivalCount (ex_relocated oid 50 d se) = 50"
  "arrivalCount (ex_relocated oid 49 d se) = 49"
  "arrivalCount (ex_relocated oid 5 d se) = 5"
  by (simp_all add: arrivalCount_def ex_relocated_def ex_arrivals_def ex_pickIDs_def)

text \<open>The scenario, run: both attempts succeed and both results are sent.\<close>

lemma ex_run:
  "processEvent (ex_env 50 120 (Some 35)) ex_cfg (\<lambda>att. 0) ''ev1'' ex_app =
     (DepthPhaseSent,
      ex_app\<lparr>origins :=
               [''Origin/direct'' \<mapsto> stampRelocated ex_cfg 0 (ex_relocated ''Origin/direct'' 50 120 (Some 1)),
                ''Origin/depth'' \<mapsto> stampRelocated ex_cfg 0 (ex_relocated ''Origin/depth'' 5 35 (Some 1))],
             sentMessages :=
               [stampRelocated ex_cfg 0 (ex_relocated ''Origin/direct'' 50 120 (Some 1)),
                stampRelocated ex_cfg 0 (ex_relocated ''Origin/depth'' 5 35 (Some 1))],
             relocated :=
               [''ev1'' \<mapsto> stampRelocated ex_cfg 0 (ex_relocated ''Origin/depth'' 5 35 (Some 1))]\<rparr>)"
  by (simp add: processEvent_def attemptBody_Direct attemptBody_DepthPhaseBased depthPhaseGate_def
      ex_env_sel ex_app_sel ex_cfg_sel ex_arrivalCount ex_relocated_sel stamp_simps
      adoptFixedDepth_def getFixedDepth_def ex_incoming_sel)

lemma ex_no_improvement:
  "\<not> improvement (ex_env 50 120 (Some 35))
       (stampRelocated ex_cfg 0 (ex_relocated ''Origin/direct'' 50 120 (Some 1)))
       (stampRelocated ex_cfg 0 (ex_relocated ''Origin/depth'' 5 35 (Some 1)))"
  by code_simp


lemma ex_not_improves_49:
  "\<not> improvement (ex_env 49 120 (Some 35)) (ex_relocated ''Origin/old'' 50 33 (Some 1))
       (stampRelocated ex_cfg 0 (ex_relocated ''Origin/direct'' 49 120 (Some 1)))"
  by code_simp



text \<open>
  C2, as the claim states it, fails: in the scenario the depth phase based result is sent
  although the direct result, sent and cached just before, is the event's last published
  relocation and the depth phase based result does not improve on it.
\<close>

theorem depth_phase_result_sent_without_improvement:
  "sentMessages (snd (processEvent (ex_env 50 120 (Some 35)) ex_cfg (\<lambda>att. 0) ''ev1'' ex_app))
     = [stampRelocated ex_cfg 0 (ex_relocated ''Origin/direct'' 50 120 (Some 1)),
        stampRelocated ex_cfg 0 (ex_relocated ''Origin/depth'' 5 35 (Some 1))]
   \<and> relocated (flowApp (attemptBody (ex_env 50 120 (Some 35)) ex_cfg (\<lambda>att. 0) ''ev1'' Direct
         \<lparr>l_relocated = None, l_depthFromDepthPhases = None,
          l_originWithArrivals = ex_incoming ''Origin/auto'' ''scautoloc'' 0 0 33,
          l_fixedDepth = None\<rparr> ex_app)) ''ev1''
     = Some (stampRelocated ex_cfg 0 (ex_relocated ''Origin/direct'' 50 120 (Some 1)))
   \<and> \<not> improvement (ex_env 50 120 (Some 35))
         (stampRelocated ex_cfg 0 (ex_relocated ''Origin/direct'' 50 120 (Some 1)))
         (stampRelocated ex_cfg 0 (ex_relocated ''Origin/depth'' 5 35 (Some 1)))"
  by (simp add: ex_run ex_no_improvement attemptBody_Direct ex_env_sel ex_app_sel ex_cfg_sel
      ex_arrivalCount)

text \<open>
  C2, amended. In every call of \<open>processEvent\<close>, the first origin sent is the result of
  the direct attempt, and it is sent only if no relocated origin is cached for the event
  or it improves on the cached one according to the improvement test; a second origin
  sent in the same call is the result of the depth phase based attempt, which is sent
  without consulting the improvement test.
\<close>

theorem direct_send_gated:
  assumes "processEvent env cfg clock eventID s = (out, s')"
  shows "sentMessages s' = sentMessages s
       \<or> (\<exists>evt org rel0.
             dbutil_loadEvent env eventID = Some evt
           \<and> dbutil_loadOriginWithoutArrivals env (evt_preferredOriginID evt) = Some org
           \<and> relocation_relocate env (dbutil_loadPicksForOrigin env org) eventID
                 (adoptFixedDepth env cfg org) (cfg_minDepth cfg) (cfg_maxResidual cfg) = Some rel0
           \<and> (case relocated s eventID of
                 None \<Rightarrow> True
               | Some prev \<Rightarrow> improvement env prev (stampRelocated cfg (clock Direct) rel0))
           \<and> (sentMessages s' = sentMessages s @ [stampRelocated cfg (clock Direct) rel0]
              \<or> (\<exists>rel2. out = DepthPhaseSent
                    \<and> sentMessages s' = sentMessages s @
                         [stampRelocated cfg (clock Direct) rel0,
                          stampRelocated cfg (clock DepthPhaseBased) rel2])))"
  using assms
  by (auto simp: processEvent_def attemptBody_Direct attemptBody_DepthPhaseBased
        depthPhaseGate_def stamp_simps not_less
      split: option.splits if_splits)

theorem direct_send_gated_witness:
  "sentMessages (snd (processEvent (ex_env 49 120 (Some 35)) ex_cfg (\<lambda>att. 0) ''ev1''
       (ex_app\<lparr>relocated := [''ev1'' \<mapsto> ex_relocated ''Origin/old'' 50 33 (Some 1)]\<rparr>))) = []"
  using
    direct_send_gated [of "ex_env 49 120 (Some 35)" ex_cfg "\<lambda>att. 0" "''ev1''"
      "ex_app\<lparr>relocated := [''ev1'' \<mapsto> ex_relocated ''Origin/old'' 50 33 (Some 1)]\<rparr>"
      "fst (processEvent (ex_env 49 120 (Some 35)) ex_cfg (\<lambda>att. 0) ''ev1''
         (ex_app\<lparr>relocated := [''ev1'' \<mapsto> ex_relocated ''Origin/old'' 50 33 (Some 1)]\<rparr>))"
      "snd (processEvent (ex_env 49 120 (Some 35)) ex_cfg (\<lambda>att. 0) ''ev1''
         (ex_app\<lparr>relocated := [''ev1'' \<mapsto> ex_relocated ''Origin/old'' 50 33 (Some 1)]\<rparr>))"]
    ex_not_improves_49
  by (auto simp: ex_env_sel ex_app_sel ex_cfg_sel adoptFixedDepth_def getFixedDepth_def
      ex_incoming_sel)

text \<open>
  C4. After every origin sent for an event, that origin is the event's cached relocated
  origin: each attempt that sends an origin caches it, so after a call of
  \<open>processEvent\<close> that sent something the cache holds the origin sent last. A depth
  phase based result is sent and cached whenever the relocation returns at least five
  arrivals, without the improvement test; and the direct attempt compares its result with
  the cached origin.
\<close>

theorem sent_origin_becomes_baseline:
  "(sentMessages (flowApp (attemptBody env cfg clock eventID att l s)) \<noteq> sentMessages s
      \<longrightarrow> (\<exists>rel. sentMessages (flowApp (attemptBody env cfg clock eventID att l s))
                    = sentMessages s @ [rel]
               \<and> relocated (flowApp (attemptBody env cfg clock eventID att l s)) eventID = Some rel))
   \<and> (sentMessages (snd (processEvent env cfg clock eventID s)) \<noteq> sentMessages s
      \<longrightarrow> relocated (snd (processEvent env cfg clock eventID s)) eventID
            = Some (last (sentMessages (snd (processEvent env cfg clock eventID s)))))
   \<and> (\<forall>l1 rel0. depthPhaseGate l = Some l1
         \<and> relocation_relocate env (l_originWithArrivals l1) eventID (l_fixedDepth l1)
              (cfg_minDepth cfg) (cfg_maxResidual cfg) = Some rel0
         \<and> 5 \<le> arrivalCount rel0 \<and> \<not> cfg_test cfg
      \<longrightarrow> (\<exists>s'. attemptBody env cfg clock eventID DepthPhaseBased l s = Break DepthPhaseSent s'
               \<and> sentMessages s' = sentMessages s @ [stampRelocated cfg (clock DepthPhaseBased) rel0]
               \<and> relocated s' eventID = Some (stampRelocated cfg (clock DepthPhaseBased) rel0)))
   \<and> (\<forall>prev rel0. relocated s eventID = Some prev
         \<and> relocation_relocate env (l_originWithArrivals l) eventID (l_fixedDepth l)
              (cfg_minDepth cfg) (cfg_maxResidual cfg) = Some rel0
         \<and> 5 \<le> arrivalCount rel0
      \<longrightarrow> ((\<exists>s'. attemptBody env cfg clock eventID Direct l s = Return NoImprovement s')
            \<longleftrightarrow> \<not> improvement env prev (stampRelocated cfg (clock Direct) rel0)))"
proof (intro conjI)
  show "sentMessages (flowApp (attemptBody env cfg clock eventID att l s)) \<noteq> sentMessages s
      \<longrightarrow> (\<exists>rel. sentMessages (flowApp (attemptBody env cfg clock eventID att l s))
                    = sentMessages s @ [rel]
               \<and> relocated (flowApp (attemptBody env cfg clock eventID att l s)) eventID = Some rel)"
    by (cases att)
      (auto simp: attemptBody_Direct attemptBody_DepthPhaseBased split: option.splits if_splits)
  show "sentMessages (snd (processEvent env cfg clock eventID s)) \<noteq> sentMessages s
      \<longrightarrow> relocated (snd (processEvent env cfg clock eventID s)) eventID
            = Some (last (sentMessages (snd (processEvent env cfg clock eventID s))))"
    by (auto simp: processEvent_def attemptBody_Direct attemptBody_DepthPhaseBased
          depthPhaseGate_def stamp_simps
        split: option.splits if_splits)
  show "\<forall>l1 rel0. depthPhaseGate l = Some l1
         \<and> relocation_relocate env (l_originWithArrivals l1) eventID (l_fixedDepth l1)
              (cfg_minDepth cfg) (cfg_maxResidual cfg) = Some rel0
         \<and> 5 \<le> arrivalCount rel0 \<and> \<not> cfg_test cfg
      \<longrightarrow> (\<exists>s'. attemptBody env cfg clock eventID DepthPhaseBased l s = Break DepthPhaseSent s'
               \<and> sentMessages s' = sentMessages s @ [stampRelocated cfg (clock DepthPhaseBased) rel0]
               \<and> relocated s' eventID = Some (stampRelocated cfg (clock DepthPhaseBased) rel0))"
    by (auto simp: attemptBody_DepthPhaseBased)
  show "\<forall>prev rel0. relocated s eventID = Some prev
         \<and> relocation_relocate env (l_originWithArrivals l) eventID (l_fixedDepth l)
              (cfg_minDepth cfg) (cfg_maxResidual cfg) = Some rel0
         \<and> 5 \<le> arrivalCount rel0
      \<longrightarrow> ((\<exists>s'. attemptBody env cfg clock eventID Direct l s = Return NoImprovement s')
            \<longleftrightarrow> \<not> improvement env prev (stampRelocated cfg (clock Direct) rel0))"
    by (auto simp: attemptBody_Direct)
qed

theorem sent_origin_becomes_baseline_witness:
  "relocated (snd (processEvent (ex_env 50 120 (Some 35)) ex_cfg (\<lambda>att. 0) ''ev1'' ex_app)) ''ev1''
     = Some (stampRelocated ex_cfg 0 (ex_relocated ''Origin/depth'' 5 35 (Some 1)))
   \<and> relocated (snd (processEvent (ex_env 49 120 (Some 35)) ex_cfg (\<lambda>att. 0) ''ev1'' ex_app)) ''ev1''
     = Some (last (sentMessages
         (snd (processEvent (ex_env 49 120 (Some 35)) ex_cfg (\<lambda>att. 0) ''ev1'' ex_app))))"
  using
    sent_origin_becomes_baseline [of "ex_env 50 120 (Some 35)" ex_cfg "\<lambda>att. 0" "''ev1''"
      Direct "\<lparr>l_relocated = None, l_depthFromDepthPhases = None,
          l_originWithArrivals = ex_incoming ''Origin/auto'' ''scautoloc'' 0 0 33,
          l_fixedDepth = None\<rparr>" ex_app]
    sent_origin_becomes_baseline [of "ex_env 49 120 (Some 35)" ex_cfg "\<lambda>att. 0" "''ev1''"
      Direct "\<lparr>l_relocated = None, l_depthFromDepthPhases = None,
          l_originWithArrivals = ex_incoming ''Origin/auto'' ''scautoloc'' 0 0 33,
          l_fixedDepth = None\<rparr>" ex_app]
  by (simp add: ex_run ex_app_sel processEvent_def attemptBody_Direct attemptBody_DepthPhaseBased
      depthPhaseGate_def ex_env_sel ex_cfg_sel ex_arrivalCount ex_relocated_sel stamp_simps
      adoptFixedDepth_def getFixedDepth_def ex_incoming_sel)

section \<open>Repicker: properties of the processing step\<close>













lemma processLog_process: "processLog (snd (process env cfg ps eventID st)) = processLog st"
  by (simp add: process_def Let_def split: prod.splits sum.splits option.splits)

lemma spoolPaths_os_remove:
  "spoolPaths cfg (os_remove cfg link fs) = spoolPaths cfg fs - {link}"
  by (auto simp: spoolPaths_def os_remove_def)

lemma spoolPaths_update:
  "spoolPaths cfg (fs\<lparr>fs_yaml := y\<rparr>) = spoolPaths cfg fs"
  "spoolPaths cfg (fs\<lparr>fs_links := l\<rparr>) = spoolPaths cfg fs"
  by (simp_all add: spoolPaths_def)

lemma findSpoolItems_paths:
  "fst ` set (findSpoolItems cfg fs) \<subseteq> spoolPaths cfg fs"
  by (force simp: findSpoolItems_def spoolPaths_def Let_def
      split: option.splits dirent.splits if_splits)

lemma spoolPaths_pollItem:
  "pollItem env cfg reverse item (fs, st) = Continue fs' st'
     \<or> pollItem env cfg reverse item (fs, st) = Stop e fs' st'
   \<Longrightarrow> spoolPaths cfg fs' \<subseteq> spoolPaths cfg fs"
  by (cases item)
    (auto simp: Let_def spoolPaths_os_remove spoolPaths_update
      split: option.splits sum.splits if_splits)

lemma processLog_pollItem:
  "pollItem env cfg reverse item (fs, st) = Continue fs' st'
     \<or> pollItem env cfg reverse item (fs, st) = Stop e fs' st'
   \<Longrightarrow> processLog st' = processLog st \<or> processLog st' = processLog st @ [item]"
  by (cases item)
    (auto simp: Let_def processLog_process split: option.splits sum.splits if_splits)

lemma pollItems_effect:
  "pollItems env cfg reverse items (fs, st) = (r, fs', st') \<Longrightarrow>
     (\<exists>new. processLog st' = processLog st @ new \<and> set new \<subseteq> set items)
     \<and> spoolPaths cfg fs' \<subseteq> spoolPaths cfg fs"
proof (induction items arbitrary: fs st)
  case Nil
  then show ?case by simp
next
  case (Cons item items)
  consider (Continue) fs1 st1 where "pollItem env cfg reverse item (fs, st) = Continue fs1 st1"
    | (Stop) e fs1 st1 where "pollItem env cfg reverse item (fs, st) = Stop e fs1 st1"
    using pollFlow.exhaust by blast
  then show ?case
  proof cases
    case Continue
    with Cons.prems have "pollItems env cfg reverse items (fs1, st1) = (r, fs', st')"
      by simp
    from Cons.IH [OF this] obtain new where
      n: "processLog st' = processLog st1 @ new" "set new \<subseteq> set items"
      and sp: "spoolPaths cfg fs' \<subseteq> spoolPaths cfg fs1"
      by blast
    from processLog_pollItem [of env cfg reverse item fs st fs1 st1] spoolPaths_pollItem [of env cfg reverse item fs st fs1 st1] Continue
    have "processLog st1 = processLog st \<or> processLog st1 = processLog st @ [item]"
      and "spoolPaths cfg fs1 \<subseteq> spoolPaths cfg fs"
      by simp_all
    with n sp have "processLog st' = processLog st @ new \<or> processLog st' = processLog st @ (item # new)"
      and "spoolPaths cfg fs' \<subseteq> spoolPaths cfg fs"
      by auto
    with n(2) show ?thesis
      by (auto intro: exI [of _ new] exI [of _ "item # new"])
  next
    case Stop
    with Cons.prems have eq: "fs' = fs1" "st' = st1"
      by simp_all
    from processLog_pollItem [of env cfg reverse item fs st fs1 st1 e] spoolPaths_pollItem [of env cfg reverse item fs st fs1 st1 e] Stop
    have "processLog st1 = processLog st \<or> processLog st1 = processLog st @ [item]"
      and "spoolPaths cfg fs1 \<subseteq> spoolPaths cfg fs"
      by simp_all
    then show ?thesis
      unfolding eq by (auto intro: exI [of _ "[]"] exI [of _ "[item]"])
  qed
qed


lemma poll_effect:
  assumes "poll env cfg reverse (fs, st) = (r, fs', st')"
  shows "(\<exists>new. processLog st' = processLog st @ new \<and> fst ` set new \<subseteq> spoolPaths cfg fs)
       \<and> spoolPaths cfg fs' \<subseteq> spoolPaths cfg fs"
proof -
  let ?items = "if reverse then rev (sort (findSpoolItems cfg fs)) else sort (findSpoolItems cfg fs)"
  from assms have "pollItems env cfg reverse ?items (fs, st) = (r, fs', st')"
    by (simp add: poll_def Let_def)
  from pollItems_effect [OF this] obtain new where
    n: "processLog st' = processLog st @ new" "set new \<subseteq> set ?items"
    and sp: "spoolPaths cfg fs' \<subseteq> spoolPaths cfg fs"
    by blast
  have "set ?items = set (findSpoolItems cfg fs)"
    by simp
  with n(2) findSpoolItems_paths [of cfg fs] have "fst ` set new \<subseteq> spoolPaths cfg fs"
    by blast
  with n(1) sp show ?thesis
    by blast
qed

lemma passes_effect:
  "(\<exists>new. processLog (snd (passes env cfg n (fs, st))) = processLog st @ new
          \<and> fst ` set new \<subseteq> spoolPaths cfg fs)
   \<and> spoolPaths cfg (fst (passes env cfg n (fs, st))) \<subseteq> spoolPaths cfg fs"
proof (induction n arbitrary: fs st)
  case 0
  show ?case by simp
next
  case (Suc n)
  obtain r fs1 st1 where p: "poll env cfg True (fs, st) = (r, fs1, st1)"
    using prod_cases3 by blast
  from poll_effect [OF p] obtain new1 where
    n1: "processLog st1 = processLog st @ new1" "fst ` set new1 \<subseteq> spoolPaths cfg fs"
    and sp1: "spoolPaths cfg fs1 \<subseteq> spoolPaths cfg fs"
    by blast
  define st2 where "st2 = (case r of None \<Rightarrow> st1
                           | Some e \<Rightarrow> initialRepicker\<lparr>processLog := processLog st1\<rparr>)"
  have l2: "processLog st2 = processLog st1"
    by (simp add: st2_def split: option.splits)
  have unfold: "passes env cfg (Suc n) (fs, st) = passes env cfg n (fs1, st2)"
    by (simp add: p st2_def split: option.splits)
  from Suc.IH [of fs1 st2] obtain new2 where
    n2: "processLog (snd (passes env cfg n (fs1, st2))) = processLog st2 @ new2"
      "fst ` set new2 \<subseteq> spoolPaths cfg fs1"
    and sp2: "spoolPaths cfg (fst (passes env cfg n (fs1, st2))) \<subseteq> spoolPaths cfg fs1"
    by blast
  have "processLog (snd (passes env cfg (Suc n) (fs, st))) = processLog st @ (new1 @ new2)"
    unfolding unfold by (simp add: n2(1) l2 n1(1))
  moreover have "fst ` set (new1 @ new2) \<subseteq> spoolPaths cfg fs"
    using n1(2) n2(2) sp1 by auto
  moreover have "spoolPaths cfg (fst (passes env cfg (Suc n) (fs, st))) \<subseteq> spoolPaths cfg fs"
    unfolding unfold using sp2 sp1 by blast
  ultimately show ?case
    by blast
qed

text \<open>
  C8, as the claim states it, fails: redelivery does not need a crash. When the
  prediction raises \<^verbatim>\<open>RuntimeError\<close>, the pass ends without an exception and leaves
  the link in the spool directory, and the next pass hands the same item to
  \<^verbatim>\<open>_process\<close> again.
\<close>

theorem runtime_error_redelivers_without_crash:
  "fst (poll (ex_rcollab True) ex_rcfg True (ex_fs, initialRepicker)) = None
   \<and> map fst (fs_spool (fst (snd (poll (ex_rcollab True) ex_rcfg True (ex_fs, initialRepicker)))))
       = [''a.yaml'']
   \<and> fst (poll (ex_rcollab True) ex_rcfg True
           (snd (poll (ex_rcollab True) ex_rcfg True (ex_fs, initialRepicker)))) = None
   \<and> processLog (snd (snd (poll (ex_rcollab True) ex_rcfg True
           (snd (poll (ex_rcollab True) ex_rcfg True (ex_fs, initialRepicker))))))
       = [(''./spool/a.yaml'', ''./spool/../events/ev1/in/a.yaml''),
          (''./spool/a.yaml'', ''./spool/../events/ev1/in/a.yaml'')]"
  by code_simp

text \<open>
  C8, amended. Once the consumer has removed a link, the link is no longer in the spool
  directory, and while it is not deposited again from outside no later pass of the
  consumer hands that item to \<^verbatim>\<open>_process\<close>, whatever the payload files hold and
  whether or not the consumer was restarted in between; no pass puts a link into the
  spool directory.
\<close>

theorem removed_link_not_reprocessed:
  "link \<notin> spoolPaths cfg (os_remove cfg link fs0)
   \<and> (link \<notin> spoolPaths cfg fs
      \<longrightarrow> link \<notin> fst ` set (drop (length (processLog st))
                               (processLog (snd (passes env cfg n (fs, st)))))
          \<and> link \<notin> spoolPaths cfg (fst (passes env cfg n (fs, st))))"
proof -
  obtain new where
    "processLog (snd (passes env cfg n (fs, st))) = processLog st @ new"
    "fst ` set new \<subseteq> spoolPaths cfg fs"
    "spoolPaths cfg (fst (passes env cfg n (fs, st))) \<subseteq> spoolPaths cfg fs"
    using passes_effect [of env cfg n fs st] by blast
  then show ?thesis
    by (auto simp: spoolPaths_os_remove)
qed

theorem removed_link_not_reprocessed_witness:
  "fs_yaml (os_remove ex_rcfg ''./spool/a.yaml'' ex_fs) ''./spool/../events/ev1/in/a.yaml''
     = Some [ex_pick ''1'', ex_pick ''2'']
   \<and> ''./spool/a.yaml'' \<notin> fst ` set (processLog (snd (passes (ex_rcollab False) ex_rcfg 3
         (os_remove ex_rcfg ''./spool/a.yaml'' ex_fs, initialRepicker))))"
  using removed_link_not_reprocessed [of "''./spool/a.yaml''" ex_rcfg ex_fs
      "os_remove ex_rcfg ''./spool/a.yaml'' ex_fs" initialRepicker "ex_rcollab False" 3]
  by (simp add: initialRepicker_def os_remove_def ex_fs_def)


lemma ex_process_first:
  "submitted (snd (process (ex_rcollab False) ex_rcfg [ex_pick ''1'', ex_pick ''2''] ''ev1''
       initialRepicker)) ''ev1'' = [''Pick/1'', ''Pick/2'']
   \<and> map pk_publicID (projr (fst (process (ex_rcollab False) ex_rcfg
         [ex_pick ''1'', ex_pick ''2''] ''ev1'' initialRepicker)))
       = [''Pick/1/repick'', ''Pick/2/repick'']"
  by code_simp


end
